theory Spec2Isabelle
  imports Main "HOL-Library.Char_ord" "HOL-Library.List_Lexorder"
begin

section \<open>Data model\<close>

text \<open>
  The documents of the two collections, as the schemas of the server declare them.
  JavaScript strings are compared by code unit; on the ASCII strings of this program that
  is the lexicographic order of \<open>char list\<close>. Numbers that the program only uses as
  integers (weekdays, channel numbers, timers, timestamps in milliseconds) are \<open>int\<close>
  or \<open>nat\<close>. A field that a document may lack is an \<open>option\<close>.
\<close>

record schedule =
  days :: "int list"
  startTime :: string
  endTime :: string
  schedule_enabled :: bool

record relayConfig =
  index :: int
  relay_name :: "string option"
  relay_image :: "string option"
  schedules :: "schedule list"
  relay_enabled :: "bool option"
  relay_createdAt :: int

record dashboard =
  relays :: "relayConfig list"

record userAccount =
  username :: string
  password :: string
  deviceId :: string
  createdAt :: int
  dashboard :: dashboard

text \<open>
  The schema gives \<open>enabled\<close> of a relay the default \<open>true\<close>: a relay document that
  lacks the field reads as enabled when it is loaded.
\<close>

definition relayEnabled :: "relayConfig \<Rightarrow> bool" where
  "relayEnabled r = (case relay_enabled r of None \<Rightarrow> True | Some b \<Rightarrow> b)"

section \<open>Command emitter\<close>

record relayCommand =
  cmd_deviceId :: string
  cmd_relay :: int
  cmd_action :: string
  cmd_duration :: "int option"

text \<open>
  \<open>controlRelay\<close> builds the message and publishes it on the relay-control topic; the
  model appends it to the list of messages published so far.
\<close>

definition controlRelay ::
  "string \<Rightarrow> int \<Rightarrow> string \<Rightarrow> int option \<Rightarrow> relayCommand list \<Rightarrow> relayCommand list" where
  "controlRelay dev relayIndex action duration bus =
     bus @ [\<lparr>cmd_deviceId = dev, cmd_relay = relayIndex, cmd_action = action,
             cmd_duration = duration\<rparr>]"

section \<open>Scheduler\<close>

text \<open>
  What the runtime's clock reports when it is read: the weekday of the process's own
  timezone (\<open>now.getDay()\<close>), the weekday in Africa/Cairo, and the string that
  \<open>toLocaleTimeString\<close> formats for Africa/Cairo. The scheduler reads the first and
  the third. With the options of the source (locale \<open>en-EG\<close>, two-digit hour and minute,
  no \<open>hour12: false\<close>) the string is a 12-hour time with its day period, such as
  \<open>01:30 AM\<close> or \<open>12:30 PM\<close>.
\<close>

record clock =
  localDay :: nat
  cairoDay :: nat
  cairoTime :: string

record tickState =
  published :: "relayCommand list"
  totalChecks :: nat
  activatedSchedules :: nat

fun checkSchedules ::
  "nat \<Rightarrow> string \<Rightarrow> string \<Rightarrow> int \<Rightarrow> schedule list \<Rightarrow> tickState \<Rightarrow> tickState" where
  "checkSchedules currentDay currentTime dev idx [] st = st"
| "checkSchedules currentDay currentTime dev idx (s # ss) st =
     (let st1 = st\<lparr>totalChecks := totalChecks st + 1\<rparr> in
      if \<not> schedule_enabled s then checkSchedules currentDay currentTime dev idx ss st1
      else
        let isScheduledDay = (int currentDay \<in> set (days s));
            isScheduledTime = (currentTime \<ge> startTime s \<and> currentTime \<le> endTime s)
        in if isScheduledDay \<and> isScheduledTime
           then checkSchedules currentDay currentTime dev idx ss
                  (st1\<lparr>published := controlRelay dev idx ''on'' None (published st1),
                        activatedSchedules := activatedSchedules st1 + 1\<rparr>)
           else checkSchedules currentDay currentTime dev idx ss st1)"

fun checkRelays ::
  "nat \<Rightarrow> string \<Rightarrow> string \<Rightarrow> relayConfig list \<Rightarrow> tickState \<Rightarrow> tickState" where
  "checkRelays currentDay currentTime dev [] st = st"
| "checkRelays currentDay currentTime dev (r # rs) st =
     (if \<not> relayEnabled r then checkRelays currentDay currentTime dev rs st
      else checkRelays currentDay currentTime dev rs
             (checkSchedules currentDay currentTime dev (index r) (schedules r) st))"

fun checkUsers ::
  "nat \<Rightarrow> string \<Rightarrow> userAccount list \<Rightarrow> tickState \<Rightarrow> tickState" where
  "checkUsers currentDay currentTime [] st = st"
| "checkUsers currentDay currentTime (u # us) st =
     checkUsers currentDay currentTime us
       (checkRelays currentDay currentTime (deviceId u) (relays (dashboard u)) st)"

text \<open>
  One tick: one run of the callback that \<open>setupScheduler\<close> hands to \<open>cron.schedule\<close>, with
  the three nested loops above. \<open>User.find({})\<close> either yields every account or raises; a
  raise is caught, logged, and ends the tick with nothing published. The result is the list
  of messages the tick published on the relay-control topic.
\<close>

definition tick :: "clock \<Rightarrow> userAccount list option \<Rightarrow> relayCommand list" where
  "tick now found =
     (let currentDay = localDay now; currentTime = cairoTime now in
      case found of
        None \<Rightarrow> []
      | Some users \<Rightarrow>
          published (checkUsers currentDay currentTime users
            \<lparr>published = [], totalChecks = 0, activatedSchedules = 0\<rparr>))"

subsection \<open>Next run of a schedule\<close>

record nextRun =
  date :: int
  time :: string
  daysFromNow :: nat

function findNextDay :: "nat \<Rightarrow> int list \<Rightarrow> nat \<Rightarrow> nat" where
  "findNextDay currentDay ds i =
     (if i \<le> 7
      then (if int ((currentDay + i) mod 7) \<in> set ds then i
            else findNextDay currentDay ds (i + 1))
      else 0)"
  by pat_completeness auto
termination
  by (relation "measure (\<lambda>(currentDay, ds, i). 8 - i)") auto

declare findNextDay.simps [simp del]

text \<open>
  \<open>today\<close> is the calendar day of the instant (as a day number); the result's date is
  that day moved on by \<open>daysToAdd\<close>. The current time is read and not used.
\<close>

definition calculateNextRun :: "clock \<Rightarrow> int \<Rightarrow> schedule \<Rightarrow> nextRun" where
  "calculateNextRun now today sched =
     (let currentDay = localDay now;
          currentTime = cairoTime now;
          daysToAdd = findNextDay currentDay (days sched) 1
      in \<lparr>date = today + int daysToAdd, time = startTime sched, daysFromNow = daysToAdd\<rparr>)"

section \<open>The document store\<close>

text \<open>
  A collection is the list of its documents in natural order; an insert appends.
  \<open>findOne\<close> yields the position of the first document that satisfies the filter, and
  a document that was found is saved back at its position. Whether a call to the store
  raises (connection lost, write refused) is decided outside the program: each handler
  takes the \<open>outcome\<close> of its calls as an input.
\<close>

datatype outcome = Succeeds | Raises

fun findOne :: "('a \<Rightarrow> bool) \<Rightarrow> 'a list \<Rightarrow> nat option" where
  "findOne p [] = None"
| "findOne p (x # xs) = (if p x then Some 0 else map_option Suc (findOne p xs))"

section \<open>Registration handler\<close>

record registration =
  reg_username :: "string option"
  reg_password :: "string option"
  reg_deviceId :: "string option"

text \<open>
  \<open>hash\<close> is \<open>bcrypt.hash(\<cdot>, 12)\<close> with the salt drawn for this call. A field that is
  absent or the empty string is falsy, and the handler returns at once.
\<close>

definition handleUserRegistration ::
  "(string \<Rightarrow> string) \<Rightarrow> int \<Rightarrow> outcome \<Rightarrow> outcome \<Rightarrow> userAccount list \<Rightarrow> registration
     \<Rightarrow> userAccount list" where
  "handleUserRegistration hash now findOutcome saveOutcome users data =
     (case (reg_username data, reg_password data, reg_deviceId data) of
        (Some un, Some pw, Some dev) \<Rightarrow>
          if un = [] \<or> pw = [] \<or> dev = [] then users
          else (case findOutcome of
              Raises \<Rightarrow> users
            | Succeeds \<Rightarrow>
                (case findOne (\<lambda>u. username u = un \<or> deviceId u = dev) users of
                   Some i \<Rightarrow>
                     (let existingUser = (users ! i)\<lparr>password := hash pw\<rparr> in
                      case saveOutcome of
                        Raises \<Rightarrow> users
                      | Succeeds \<Rightarrow> users[i := existingUser])
                 | None \<Rightarrow>
                     (let user = \<lparr>username = un, password = hash pw, deviceId = dev,
                                  createdAt = now, dashboard = \<lparr>relays = []\<rparr>\<rparr> in
                      case saveOutcome of
                        Raises \<Rightarrow> users
                      | Succeeds \<Rightarrow> users @ [user])))
      | _ \<Rightarrow> users)"

text \<open>The accounts that a registration message's lookup matches.\<close>

definition matching :: "string \<Rightarrow> string \<Rightarrow> userAccount list \<Rightarrow> userAccount list" where
  "matching un dev users = filter (\<lambda>u. username u = un \<or> deviceId u = dev) users"

section \<open>Status records and the live-update fanout\<close>

record relayObs =
  obs_index :: "int option"
  obs_state :: "bool option"
  obs_name :: "string option"
  obs_timer :: "int option"

text \<open>
  The \<open>relays\<close> field of a stored status record is an array when the record was inserted
  from a device snapshot; an element of the array may be null. A record that the upsert
  created has no array: setting the path \<open>relays.c.state\<close> on a missing field makes
  \<open>relays\<close> a sub-document keyed by \<open>c\<close>.
\<close>

datatype relaysField = RelayArray "relayObs option list" | RelayDoc "(nat \<times> relayObs) list"

record deviceStatus =
  ds_deviceId :: string
  ds_ip :: "string option"
  ds_rssi :: "int option"
  ds_uptime :: "int option"
  ds_relays :: relaysField
  ds_timestamp :: int

record relayStatusData =
  rs_deviceId :: string
  rs_relay :: nat
  rs_state :: bool
  rs_timer :: int

record deviceStatusData =
  dev_deviceId :: string
  dev_ip :: string
  dev_rssi :: int
  dev_uptime :: int
  dev_relays :: "relayObs list"

datatype wsMessage = Relay_status relayStatusData | Device_status deviceStatusData

record wsClient =
  readyOpen :: bool
  sent :: "wsMessage list"

definition broadcastToWebSockets :: "wsMessage \<Rightarrow> wsClient list \<Rightarrow> wsClient list" where
  "broadcastToWebSockets message clients =
     map (\<lambda>client. if readyOpen client then client\<lparr>sent := sent client @ [message]\<rparr> else client)
       clients"

text \<open>
  The server's state as the two status handlers see it. \<open>effects\<close> records, in program
  order, the calls that leave the handler: a broadcast, a call to the store, a write to the
  cache of connected devices, an error written to the log.
\<close>

datatype effect = Broadcast wsMessage | StoreCall string | CacheSet string | ErrorLogged

record server =
  statuses :: "deviceStatus list"
  connectedDevices :: "(string \<times> deviceStatusData \<times> int) list"
  wsClients :: "wsClient list"
  effects :: "effect list"

definition broadcast :: "wsMessage \<Rightarrow> server \<Rightarrow> server" where
  "broadcast message srv =
     srv\<lparr>wsClients := broadcastToWebSockets message (wsClients srv),
         effects := effects srv @ [Broadcast message]\<rparr>"

definition logError :: "server \<Rightarrow> server" where
  "logError srv = srv\<lparr>effects := effects srv @ [ErrorLogged]\<rparr>"

subsection \<open>The field-path update of the relay-status handler\<close>

definition setStateTimer :: "bool \<Rightarrow> int \<Rightarrow> relayObs \<Rightarrow> relayObs" where
  "setStateTimer st tm e = e\<lparr>obs_state := Some st, obs_timer := Some tm\<rparr>"

definition newObs :: "bool \<Rightarrow> int \<Rightarrow> relayObs" where
  "newObs st tm = \<lparr>obs_index = None, obs_state = Some st, obs_name = None, obs_timer = Some tm\<rparr>"

text \<open>
  \<open>$set\<close> of \<open>relays.c.state\<close> and \<open>relays.c.timer\<close>. On an array the number \<open>c\<close> is a
  position: the element there gets the two fields; past the end the array is filled with
  nulls up to \<open>c\<close>; a null element cannot take a field, and the update raises (\<open>None\<close>).
  On a keyed sub-document \<open>c\<close> is a key.
\<close>

fun setRelayPath :: "nat \<Rightarrow> bool \<Rightarrow> int \<Rightarrow> relaysField \<Rightarrow> relaysField option" where
  "setRelayPath c st tm (RelayArray xs) =
     (if c < length xs
      then (case xs ! c of
              None \<Rightarrow> None
            | Some e \<Rightarrow> Some (RelayArray (xs[c := Some (setStateTimer st tm e)])))
      else Some (RelayArray (xs @ replicate (c - length xs) None @ [Some (newObs st tm)])))"
| "setRelayPath c st tm (RelayDoc kvs) =
     (case map_of kvs c of
        None \<Rightarrow> Some (RelayDoc (kvs @ [(c, newObs st tm)]))
      | Some e \<Rightarrow>
          Some (RelayDoc (map (\<lambda>(k, v). if k = c then (k, setStateTimer st tm v) else (k, v)) kvs)))"

text \<open>
  \<open>findOneAndUpdate\<close> with the filter \<open>{deviceId}\<close>, no sort, and \<open>upsert: true\<close>: the
  first record of the device in natural order is updated; with no such record one is
  inserted from the filter and the update. \<open>None\<close> is a raise.
\<close>

definition findOneAndUpdate ::
  "outcome \<Rightarrow> int \<Rightarrow> relayStatusData \<Rightarrow> deviceStatus list \<Rightarrow> deviceStatus list option" where
  "findOneAndUpdate storeOutcome now data recs =
     (case storeOutcome of
        Raises \<Rightarrow> None
      | Succeeds \<Rightarrow>
          (case findOne (\<lambda>d. ds_deviceId d = rs_deviceId data) recs of
             Some i \<Rightarrow>
               (case setRelayPath (rs_relay data) (rs_state data) (rs_timer data)
                       (ds_relays (recs ! i)) of
                  None \<Rightarrow> None
                | Some rf \<Rightarrow> Some (recs[i := (recs ! i)\<lparr>ds_relays := rf, ds_timestamp := now\<rparr>]))
           | None \<Rightarrow>
               Some (recs @
                 [\<lparr>ds_deviceId = rs_deviceId data, ds_ip = None, ds_rssi = None, ds_uptime = None,
                   ds_relays = RelayDoc [(rs_relay data, newObs (rs_state data) (rs_timer data))],
                   ds_timestamp = now\<rparr>])))"

section \<open>Relay-status and device-status handlers\<close>

definition handleRelayStatus :: "outcome \<Rightarrow> int \<Rightarrow> server \<Rightarrow> relayStatusData \<Rightarrow> server" where
  "handleRelayStatus storeOutcome now srv data =
     (let srv1 = broadcast (Relay_status data) srv;
          srv2 = srv1\<lparr>effects := effects srv1 @ [StoreCall (rs_deviceId data)]\<rparr>
      in case findOneAndUpdate storeOutcome now data (statuses srv2) of
           Some recs \<Rightarrow> srv2\<lparr>statuses := recs\<rparr>
         | None \<Rightarrow> logError srv2)"

text \<open>
  \<open>save\<close> of a new status record: the schema requires \<open>deviceId\<close>, so a record with an
  empty one is refused; the timestamp takes its default, the current time.
\<close>

definition saveDeviceStatus ::
  "outcome \<Rightarrow> int \<Rightarrow> deviceStatusData \<Rightarrow> deviceStatus list \<Rightarrow> deviceStatus list option" where
  "saveDeviceStatus storeOutcome now data recs =
     (if storeOutcome = Raises \<or> dev_deviceId data = [] then None
      else Some (recs @
        [\<lparr>ds_deviceId = dev_deviceId data, ds_ip = Some (dev_ip data),
          ds_rssi = Some (dev_rssi data), ds_uptime = Some (dev_uptime data),
          ds_relays = RelayArray (map Some (dev_relays data)), ds_timestamp = now\<rparr>]))"

text \<open>\<open>Map.set\<close>: an existing key keeps its place and takes the new value; a new key goes last.\<close>

fun mapSet :: "'k \<Rightarrow> 'v \<Rightarrow> ('k \<times> 'v) list \<Rightarrow> ('k \<times> 'v) list" where
  "mapSet k v [] = [(k, v)]"
| "mapSet k v ((k', v') # kvs) = (if k' = k then (k, v) # kvs else (k', v') # mapSet k v kvs)"

definition handleDeviceStatus :: "outcome \<Rightarrow> int \<Rightarrow> server \<Rightarrow> deviceStatusData \<Rightarrow> server" where
  "handleDeviceStatus storeOutcome now srv data =
     (let srv1 = srv\<lparr>effects := effects srv @ [StoreCall (dev_deviceId data)]\<rparr>
      in case saveDeviceStatus storeOutcome now data (statuses srv1) of
           None \<Rightarrow> logError srv1
         | Some recs \<Rightarrow>
             (let srv2 = srv1\<lparr>statuses := recs\<rparr>;
                  srv3 = srv2\<lparr>connectedDevices :=
                                 mapSet (dev_deviceId data) (data, now) (connectedDevices srv2),
                              effects := effects srv2 @ [CacheSet (dev_deviceId data)]\<rparr>
              in broadcast (Device_status data) srv3))"

section \<open>Relay configuration route\<close>

text \<open>
  The body of the request is taken as it comes: its \<open>index\<close> is the JSON value that the
  client sent, here a number or a string. The handler compares it with the stored index by
  \<open>===\<close>, which holds only between two equal numbers. An entry that is pushed passes
  through the schema, which casts its index to a number; \<open>cast\<close> is that cast of a string
  (\<open>None\<close> when the string is no number, and then saving the account is refused).
\<close>

datatype bodyIndex = IndexNumber int | IndexString string

record relayWrite =
  w_index :: bodyIndex
  w_name :: "string option"
  w_image :: "string option"
  w_enabled :: "bool option"


fun strictEquals :: "int \<Rightarrow> bodyIndex \<Rightarrow> bool" where
  "strictEquals n (IndexNumber m) = (n = m)"
| "strictEquals n (IndexString s) = False"

fun castIndex :: "(string \<Rightarrow> int option) \<Rightarrow> bodyIndex \<Rightarrow> int option" where
  "castIndex cast (IndexNumber n) = Some n"
| "castIndex cast (IndexString s) = cast s"


text \<open>
  The route \<open>PUT /api/dashboard/relay/:deviceId\<close>. \<open>upsertRelay\<close> is the part of its handler
  between loading the account and saving it; \<open>None\<close> is a dashboard that cannot be saved.
\<close>

definition upsertRelay ::
  "(string \<Rightarrow> int option) \<Rightarrow> int \<Rightarrow> relayWrite \<Rightarrow> dashboard \<Rightarrow> dashboard option" where
  "upsertRelay cast now body d =
     (case findOne (\<lambda>r. strictEquals (index r) (w_index body)) (relays d) of
        Some j \<Rightarrow>
          Some (d\<lparr>relays := (relays d)[j := (relays d ! j)\<lparr>relay_name := w_name body,
                                                          relay_image := w_image body,
                                                          relay_enabled := w_enabled body\<rparr>]\<rparr>)
      | None \<Rightarrow>
          (case castIndex cast (w_index body) of
             None \<Rightarrow> None
           | Some n \<Rightarrow>
               Some (d\<lparr>relays := relays d @
                 [\<lparr>index = n, relay_name = w_name body, relay_image = w_image body,
                   schedules = [],
                   relay_enabled = Some (case w_enabled body of None \<Rightarrow> True | Some b \<Rightarrow> b),
                   relay_createdAt = now\<rparr>]\<rparr>)))"



section \<open>Sample data\<close>

definition onCommand :: "string \<Rightarrow> int \<Rightarrow> relayCommand" where
  "onCommand dev idx =
     \<lparr>cmd_deviceId = dev, cmd_relay = idx, cmd_action = ''on'', cmd_duration = None\<rparr>"

definition mondayWindow :: schedule where
  "mondayWindow =
     \<lparr>days = [1], startTime = ''08:00'', endTime = ''08:02'', schedule_enabled = True\<rparr>"

definition earlyWindow :: schedule where
  "earlyWindow =
     \<lparr>days = [1], startTime = ''01:00'', endTime = ''02:00'', schedule_enabled = True\<rparr>"

definition afternoonWindow :: schedule where
  "afternoonWindow =
     \<lparr>days = [1], startTime = ''14:00'', endTime = ''15:00'', schedule_enabled = True\<rparr>"

definition wednesdayEvening :: schedule where
  "wednesdayEvening =
     \<lparr>days = [3], startTime = ''20:00'', endTime = ''21:00'', schedule_enabled = True\<rparr>"

definition pumpRelay :: "schedule list \<Rightarrow> relayConfig" where
  "pumpRelay ss = \<lparr>index = 2, relay_name = Some ''pump'', relay_image = None, schedules = ss,
                   relay_enabled = Some True, relay_createdAt = 0\<rparr>"

definition gardener :: "schedule list \<Rightarrow> userAccount" where
  "gardener ss = \<lparr>username = ''mona'', password = ''$2a$12$h'', deviceId = ''GT-001'',
                  createdAt = 0, dashboard = \<lparr>relays = [pumpRelay ss]\<rparr>\<rparr>"

definition neighbour :: userAccount where
  "neighbour = \<lparr>username = ''omar'', password = ''$2a$12$k'', deviceId = ''GT-002'',
                createdAt = 5, dashboard = \<lparr>relays = []\<rparr>\<rparr>"

text \<open>
  Clock readings. The time of day is the 12-hour string that the formatter of the source
  yields; in every example below the comparison with a schedule's times is decided within
  the first five characters or by the string being longer, so nothing depends on the
  character that separates the digits from the day period.
\<close>

text \<open>Monday 08:01 in Cairo, on a host whose own timezone is Cairo's.\<close>

definition mondayMorning :: clock where
  "mondayMorning = \<lparr>localDay = 1, cairoDay = 1, cairoTime = ''08:01 AM''\<rparr>"

text \<open>The same Monday one minute later, and at half past two in the afternoon.\<close>

definition mondayLastMinute :: clock where
  "mondayLastMinute = \<lparr>localDay = 1, cairoDay = 1, cairoTime = ''08:02 AM''\<rparr>"

definition mondayAfternoon :: clock where
  "mondayAfternoon = \<lparr>localDay = 1, cairoDay = 1, cairoTime = ''02:30 PM''\<rparr>"

text \<open>
  Sunday 23:30 UTC on a host that runs in UTC: in Cairo (two hours ahead) it is Monday 01:30.
\<close>

definition sundayNightUtc :: clock where
  "sundayNightUtc = \<lparr>localDay = 0, cairoDay = 1, cairoTime = ''01:30 AM''\<rparr>"

text \<open>Monday 23:30 UTC on the same host: in Cairo it is Tuesday 01:30.\<close>

definition mondayNightUtc :: clock where
  "mondayNightUtc = \<lparr>localDay = 1, cairoDay = 2, cairoTime = ''01:30 AM''\<rparr>"

definition wednesdayMorning :: clock where
  "wednesdayMorning = \<lparr>localDay = 3, cairoDay = 3, cairoTime = ''08:00 AM''\<rparr>"

definition saltedHash :: "string \<Rightarrow> string \<Rightarrow> string" where
  "saltedHash salt pw = ''$2a$12$'' @ salt @ pw"

definition monaRegisters :: registration where
  "monaRegisters = \<lparr>reg_username = Some ''mona'', reg_password = Some ''s3cret'',
                     reg_deviceId = Some ''GT-001''\<rparr>"

definition blankPassword :: registration where
  "blankPassword = \<lparr>reg_username = Some ''mona'', reg_password = Some [],
                     reg_deviceId = Some ''GT-001''\<rparr>"

definition crossRegistration :: registration where
  "crossRegistration = \<lparr>reg_username = Some ''mona'', reg_password = Some ''s3cret'',
                         reg_deviceId = Some ''GT-002''\<rparr>"

definition valveObs :: relayObs where
  "valveObs = \<lparr>obs_index = Some 1, obs_state = Some False, obs_name = Some ''valve'',
               obs_timer = Some 0\<rparr>"

definition pumpObs :: relayObs where
  "pumpObs = \<lparr>obs_index = Some 0, obs_state = Some False, obs_name = Some ''pump'',
              obs_timer = Some 0\<rparr>"

text \<open>A record whose array holds the relay with index 1 at position 0 and index 0 at position 1.\<close>

definition swappedRecord :: deviceStatus where
  "swappedRecord = \<lparr>ds_deviceId = ''GT-001'', ds_ip = Some ''10.0.0.7'', ds_rssi = Some (-60),
      ds_uptime = Some 50, ds_relays = RelayArray [Some valveObs, Some pumpObs],
      ds_timestamp = 100\<rparr>"

definition relayOneOn :: relayStatusData where
  "relayOneOn = \<lparr>rs_deviceId = ''GT-001'', rs_relay = 1, rs_state = True, rs_timer = 30\<rparr>"

definition relayZeroOn :: relayStatusData where
  "relayZeroOn = \<lparr>rs_deviceId = ''GT-001'', rs_relay = 0, rs_state = True, rs_timer = 30\<rparr>"

definition browser :: wsClient where
  "browser = \<lparr>readyOpen = True, sent = []\<rparr>"

definition idleServer :: "deviceStatus list \<Rightarrow> server" where
  "idleServer recs =
     \<lparr>statuses = recs, connectedDevices = [], wsClients = [browser], effects = []\<rparr>"

definition snapshot :: deviceStatusData where
  "snapshot = \<lparr>dev_deviceId = ''GT-001'', dev_ip = ''10.0.0.7'', dev_rssi = -60,
               dev_uptime = 50, dev_relays = [pumpObs]\<rparr>"







section \<open>Properties of the scheduler\<close>

lemma checkSchedules_single:
  "published (checkSchedules d t dev idx [s] st) =
     (if schedule_enabled s \<and> int d \<in> set (days s) \<and> startTime s \<le> t \<and> t \<le> endTime s
      then published st @ [onCommand dev idx] else published st)"
  by (simp add: Let_def controlRelay_def onCommand_def)

lemma checkSchedules_append:
  "checkSchedules d t dev idx (ss1 @ ss2) st =
     checkSchedules d t dev idx ss2 (checkSchedules d t dev idx ss1 st)"
  by (induction ss1 arbitrary: st) (simp_all add: Let_def)

lemma checkRelays_append:
  "checkRelays d t dev (rs1 @ rs2) st = checkRelays d t dev rs2 (checkRelays d t dev rs1 st)"
  by (induction rs1 arbitrary: st) simp_all

lemma checkUsers_append:
  "checkUsers d t (us1 @ us2) st = checkUsers d t us2 (checkUsers d t us1 st)"
  by (induction us1 arbitrary: st) simp_all

text \<open>Each loop only appends to what was published, and what it appends are "on" commands.\<close>

lemma checkSchedules_extends:
  "\<exists>cs. published (checkSchedules d t dev idx ss st) = published st @ cs \<and>
        (\<forall>c\<in>set cs. c = onCommand dev idx)"
proof (induction ss arbitrary: st)
  case Nil
  then show ?case by simp
next
  case (Cons s ss)
  show ?case
    using Cons.IH[of "st\<lparr>totalChecks := totalChecks st + 1\<rparr>"]
      Cons.IH[of "st\<lparr>totalChecks := totalChecks st + 1,
         published := controlRelay dev idx ''on'' None (published st),
         activatedSchedules := activatedSchedules st + 1\<rparr>"]
    by (auto simp add: Let_def controlRelay_def onCommand_def)
qed

lemma checkRelays_extends:
  "\<exists>cs. published (checkRelays d t dev rs st) = published st @ cs \<and>
        (\<forall>c\<in>set cs. cmd_action c = ''on'' \<and> cmd_deviceId c = dev)"
proof (induction rs arbitrary: st)
  case Nil
  then show ?case by simp
next
  case (Cons r rs)
  show ?case
  proof (cases "relayEnabled r")
    case False
    then show ?thesis using Cons.IH[of st] by simp
  next
    case True
    let ?st1 = "checkSchedules d t dev (index r) (schedules r) st"
    obtain cs1 where c1: "published ?st1 = published st @ cs1"
      and a1: "\<forall>c\<in>set cs1. c = onCommand dev (index r)"
      using checkSchedules_extends by blast
    obtain cs2 where c2: "published (checkRelays d t dev rs ?st1) = published ?st1 @ cs2"
      and a2: "\<forall>c\<in>set cs2. cmd_action c = ''on'' \<and> cmd_deviceId c = dev"
      using Cons.IH by blast
    have "\<forall>c\<in>set (cs1 @ cs2). cmd_action c = ''on'' \<and> cmd_deviceId c = dev"
      using a1 a2 by (auto simp: onCommand_def)
    then show ?thesis using True c1 c2 by (intro exI[of _ "cs1 @ cs2"]) simp
  qed
qed

lemma checkUsers_extends:
  "\<exists>cs. published (checkUsers d t us st) = published st @ cs \<and>
        (\<forall>c\<in>set cs. cmd_action c = ''on'')"
proof (induction us arbitrary: st)
  case Nil
  then show ?case by simp
next
  case (Cons u us)
  let ?st1 = "checkRelays d t (deviceId u) (relays (dashboard u)) st"
  obtain cs1 where c1: "published ?st1 = published st @ cs1"
    and a1: "\<forall>c\<in>set cs1. cmd_action c = ''on'' \<and> cmd_deviceId c = deviceId u"
    using checkRelays_extends by blast
  obtain cs2 where c2: "published (checkUsers d t us ?st1) = published ?st1 @ cs2"
    and a2: "\<forall>c\<in>set cs2. cmd_action c = ''on''"
    using Cons.IH by blast
  have "\<forall>c\<in>set (cs1 @ cs2). cmd_action c = ''on''"
    using a1 a2 by auto
  then show ?case using c1 c2 by (intro exI[of _ "cs1 @ cs2"]) simp
qed

text \<open>
  What the tick does for one schedule, with the readings that the code takes (the host's
  weekday and the formatted time string): an enabled schedule of an enabled relay whose day
  set holds that weekday and whose start and end enclose that string gets its "on" command;
  a schedule that is disabled, off that day or not enclosing the string adds nothing
  (\<open>checkSchedules_single\<close>).
\<close>

lemma tick_emits_in_window:
  assumes "u \<in> set users" and "r \<in> set (relays (dashboard u))" and "relayEnabled r"
    and "s \<in> set (schedules r)" and "schedule_enabled s"
    and "int (localDay now) \<in> set (days s)"
    and "startTime s \<le> cairoTime now" and "cairoTime now \<le> endTime s"
  shows "onCommand (deviceId u) (index r) \<in> set (tick now (Some users))"
proof -
  let ?d = "localDay now" and ?t = "cairoTime now"
  obtain ss1 ss2 where ss: "schedules r = ss1 @ s # ss2"
    using assms(4) by (meson split_list)
  obtain rs1 rs2 where rs: "relays (dashboard u) = rs1 @ r # rs2"
    using assms(2) by (meson split_list)
  obtain us1 us2 where us: "users = us1 @ u # us2"
    using assms(1) by (meson split_list)
  have step: "onCommand dev (index r)
      \<in> set (published (checkSchedules ?d ?t dev (index r) (schedules r) st))" for dev st
  proof -
    let ?st1 = "checkSchedules ?d ?t dev (index r) ss1 st"
    let ?st2 = "checkSchedules ?d ?t dev (index r) [s] ?st1"
    have "published ?st2 = published ?st1 @ [onCommand dev (index r)]"
      using assms(5-8) by (simp add: Let_def controlRelay_def onCommand_def)
    moreover obtain cs where
      "published (checkSchedules ?d ?t dev (index r) ss2 ?st2) = published ?st2 @ cs"
      using checkSchedules_extends by blast
    ultimately show ?thesis
      using checkSchedules_append[of ?d ?t dev "index r" "ss1" "s # ss2" st]
        checkSchedules_append[of ?d ?t dev "index r" "[s]" "ss2" ?st1]
      by (simp add: ss)
  qed
  have rstep: "onCommand dev (index r)
      \<in> set (published (checkRelays ?d ?t dev (relays (dashboard u)) st))" for dev st
  proof -
    let ?st1 = "checkRelays ?d ?t dev rs1 st"
    let ?st2 = "checkSchedules ?d ?t dev (index r) (schedules r) ?st1"
    obtain cs where "published (checkRelays ?d ?t dev rs2 ?st2) = published ?st2 @ cs"
      using checkRelays_extends by blast
    then show ?thesis
      using step[of dev ?st1] assms(3) by (simp add: rs checkRelays_append)
  qed
  let ?st0 = "\<lparr>published = [], totalChecks = 0, activatedSchedules = 0\<rparr>"
  let ?st1 = "checkUsers ?d ?t us1 ?st0"
  let ?st2 = "checkRelays ?d ?t (deviceId u) (relays (dashboard u)) ?st1"
  obtain cs where "published (checkUsers ?d ?t us2 ?st2) = published ?st2 @ cs"
    using checkUsers_extends by blast
  then show ?thesis
    using rstep[of "deviceId u" ?st1] by (simp add: tick_def Let_def us checkUsers_append)
qed

lemma tick_monday_morning:
  "tick mondayMorning (Some [gardener [mondayWindow]]) = [onCommand ''GT-001'' 2]"
  by (simp add: tick_def mondayMorning_def gardener_def pumpRelay_def mondayWindow_def
      relayEnabled_def controlRelay_def onCommand_def Let_def)

text \<open>
  Claim C1. A schedule whose day set holds the current weekday in Africa/Cairo, on an
  enabled relay, should get an "on" command at every minute whose Cairo time lies in its
  window, and none on a weekday outside its day set. The tick takes the time of day in
  Africa/Cairo and the weekday in the host's own timezone. On a host that runs in UTC, at
  Sunday 23:30 UTC it is Monday 01:30 in Cairo and the formatted time is \<open>01:30 AM\<close>. A
  schedule for Monday from 01:00 to 02:00 is on its day in Cairo, the Cairo time 01:30 is
  inside its window, and the tick's own comparison of the formatted time holds as well; yet
  the tick publishes nothing, and it publishes the command once the weekday it reads is
  Cairo's. A day later, at Monday 23:30 UTC, it is Tuesday in Cairo, outside the day set,
  and the tick publishes the command.
\<close>

theorem scheduler_weekday_is_the_hosts:
  "int (cairoDay sundayNightUtc) \<in> set (days earlyWindow) \<and>
   startTime earlyWindow \<le> ''01:30'' \<and> ''01:30'' \<le> endTime earlyWindow \<and>
   startTime earlyWindow \<le> cairoTime sundayNightUtc \<and>
   cairoTime sundayNightUtc \<le> endTime earlyWindow \<and>
   schedule_enabled earlyWindow \<and> relayEnabled (pumpRelay [earlyWindow]) \<and>
   tick sundayNightUtc (Some [gardener [earlyWindow]]) = [] \<and>
   tick (sundayNightUtc\<lparr>localDay := cairoDay sundayNightUtc\<rparr>) (Some [gardener [earlyWindow]]) =
     [onCommand ''GT-001'' 2] \<and>
   int (cairoDay mondayNightUtc) \<notin> set (days earlyWindow) \<and>
   tick mondayNightUtc (Some [gardener [earlyWindow]]) = [onCommand ''GT-001'' 2]"
  by (simp add: tick_def sundayNightUtc_def mondayNightUtc_def earlyWindow_def gardener_def
      pumpRelay_def relayEnabled_def controlRelay_def onCommand_def Let_def)

text \<open>
  The comparison itself is made on the 12-hour string. On a host in Cairo's timezone, at the
  last minute of a Monday window from 08:00 to 08:02 the formatted time \<open>08:02 AM\<close> is
  longer than \<open>08:02\<close> and so above it, and in the afternoon \<open>02:30 PM\<close> lies below
  \<open>14:00\<close>: in both cases nothing is published.
\<close>

lemma tick_compares_12_hour_string:
  "tick mondayLastMinute (Some [gardener [mondayWindow]]) = [] \<and>
   tick mondayAfternoon (Some [gardener [afternoonWindow]]) = []"
  by (simp add: tick_def mondayLastMinute_def mondayAfternoon_def mondayWindow_def
      afternoonWindow_def gardener_def pumpRelay_def relayEnabled_def Let_def)

text \<open>
  Claim C2. Every relay-control command that a tick of the scheduler publishes, whatever
  the clock and the accounts, relays and schedules it evaluates, has the action "on";
  none has the action "off".
\<close>

theorem scheduler_only_on:
  "\<forall>c \<in> set (tick now found). cmd_action c = ''on'' \<and> cmd_action c \<noteq> ''off''"
proof (cases found)
  case None
  then show ?thesis by (simp add: tick_def)
next
  case (Some users)
  obtain cs where "published (checkUsers (localDay now) (cairoTime now) users
       \<lparr>published = [], totalChecks = 0, activatedSchedules = 0\<rparr>) = [] @ cs"
    and "\<forall>c\<in>set cs. cmd_action c = ''on''"
    using checkUsers_extends[of "localDay now" "cairoTime now" users
        "\<lparr>published = [], totalChecks = 0, activatedSchedules = 0\<rparr>"] by auto
  then show ?thesis using Some by (simp add: tick_def)
qed

text \<open>
  The theorem at a tick that publishes a command: Monday 08:01, a schedule for Monday
  from 08:00 to 08:02.
\<close>

theorem scheduler_only_on_witness:
  "onCommand ''GT-001'' 2 \<in> set (tick mondayMorning (Some [gardener [mondayWindow]])) \<and>
   cmd_action (onCommand ''GT-001'' 2) = ''on'' \<and>
   cmd_action (onCommand ''GT-001'' 2) \<noteq> ''off''"
proof -
  have m: "onCommand ''GT-001'' 2 \<in> set (tick mondayMorning (Some [gardener [mondayWindow]]))"
    unfolding tick_monday_morning by simp
  from scheduler_only_on m
  have "cmd_action (onCommand ''GT-001'' 2) = ''on'' \<and>
        cmd_action (onCommand ''GT-001'' 2) \<noteq> ''off''"
    by blast
  with m show ?thesis by blast
qed

subsection \<open>Next run\<close>

lemma findNextDay_bounds:
  "i \<le> j \<Longrightarrow> j \<le> 7 \<Longrightarrow> int ((currentDay + j) mod 7) \<in> set ds \<Longrightarrow>
   i \<le> findNextDay currentDay ds i \<and> findNextDay currentDay ds i \<le> j"
proof (induction currentDay ds i rule: findNextDay.induct)
  case (1 currentDay ds i)
  show ?case
  proof (cases "int ((currentDay + i) mod 7) \<in> set ds")
    case True
    then show ?thesis using "1.prems" by (simp add: findNextDay.simps[of currentDay ds i])
  next
    case False
    then have "i \<noteq> j" using "1.prems" by auto
    then have "i + 1 \<le> j" using "1.prems" by simp
    then have "i + 1 \<le> findNextDay currentDay ds (i + 1) \<and>
               findNextDay currentDay ds (i + 1) \<le> j"
      using "1.IH" False "1.prems" by simp
    then show ?thesis
      using False "1.prems" by (simp add: findNextDay.simps[of currentDay ds i])
  qed
qed

text \<open>
  The search starts at tomorrow: for a schedule that runs on the current weekday the
  result lies between 1 and 7, whatever the time of day, and is 7 when that is its only day.
\<close>

lemma calculateNextRun_never_today:
  assumes "localDay now < 7" and "int (localDay now) \<in> set (days sched)"
  shows "1 \<le> daysFromNow (calculateNextRun now today sched) \<and>
         daysFromNow (calculateNextRun now today sched) \<le> 7"
proof -
  have "int ((localDay now + 7) mod 7) \<in> set (days sched)" using assms by simp
  then show ?thesis
    using findNextDay_bounds[of 1 7 "localDay now" "days sched"]
    by (simp add: calculateNextRun_def Let_def)
qed

lemma calculateNextRun_only_today:
  assumes "localDay now < 7" and "days sched = [int (localDay now)]"
  shows "daysFromNow (calculateNextRun now today sched) = 7"
proof -
  consider "localDay now = 0" | "localDay now = 1" | "localDay now = 2" | "localDay now = 3"
    | "localDay now = 4" | "localDay now = 5" | "localDay now = 6"
    using assms(1) by linarith
  then show ?thesis
    by cases (simp_all add: calculateNextRun_def Let_def assms(2) findNextDay.simps)
qed

text \<open>
  Claim C3. For a schedule whose day set holds the current weekday and whose start time is
  later than the current time, the next run should be today, \<open>daysFromNow = 0\<close>. On a
  Wednesday at 08:00, for a schedule on Wednesdays from 20:00 to 21:00, the function
  answers 7.
\<close>

theorem calculateNextRun_later_today:
  "int (localDay wednesdayMorning) \<in> set (days wednesdayEvening) \<and>
   cairoTime wednesdayMorning < startTime wednesdayEvening \<and>
   daysFromNow (calculateNextRun wednesdayMorning 19000 wednesdayEvening) = 7"
  by (simp add: calculateNextRun_def Let_def wednesdayMorning_def wednesdayEvening_def
      findNextDay.simps)


section \<open>Properties of the store lookup\<close>

lemma findOne_Some:
  "findOne p xs = Some i \<Longrightarrow> i < length xs \<and> p (xs ! i) \<and> (\<forall>j<i. \<not> p (xs ! j))"
proof (induction xs arbitrary: i)
  case Nil
  then show ?case by simp
next
  case (Cons x xs)
  show ?case
  proof (cases "p x")
    case True
    then show ?thesis using Cons.prems by simp
  next
    case False
    then obtain k where k: "findOne p xs = Some k" and i: "i = Suc k"
      using Cons.prems by auto
    have "k < length xs \<and> p (xs ! k) \<and> (\<forall>j<k. \<not> p (xs ! j))"
      using Cons.IH[OF k] .
    then show ?thesis using False i by (auto simp: less_Suc_eq_0_disj)
  qed
qed

lemma findOne_None: "findOne p xs = None \<longleftrightarrow> (\<forall>x\<in>set xs. \<not> p x)"
  by (induction xs) auto

lemma findOne_None_filter: "findOne p xs = None \<longleftrightarrow> filter p xs = []"
  by (simp add: findOne_None filter_empty_conv)


section \<open>Properties of the registration handler\<close>

lemma length_matching_password_update:
  "length (matching un dev (users[i := (users ! i)\<lparr>password := x\<rparr>])) =
     length (matching un dev users)"
proof (induction users arbitrary: i)
  case Nil
  then show ?case by simp
next
  case (Cons u us)
  then show ?case by (cases i) (simp_all add: matching_def)
qed

lemma registration_valid:
  assumes "reg_username data = Some un" and "reg_password data = Some pw"
    and "reg_deviceId data = Some dev" and "un \<noteq> []" and "pw \<noteq> []" and "dev \<noteq> []"
  shows "handleUserRegistration hash now Succeeds Succeeds users data =
     (case findOne (\<lambda>u. username u = un \<or> deviceId u = dev) users of
        Some i \<Rightarrow> users[i := (users ! i)\<lparr>password := hash pw\<rparr>]
      | None \<Rightarrow> users @ [\<lparr>username = un, password = hash pw, deviceId = dev,
                           createdAt = now, dashboard = \<lparr>relays = []\<rparr>\<rparr>])"
  using assms by (simp add: handleUserRegistration_def split: option.splits)

text \<open>With a matching account in the store, the handler leaves the store or saves that account.\<close>

lemma registration_existing:
  assumes "reg_username data = Some un" and "reg_deviceId data = Some dev"
    and "findOne (\<lambda>u. username u = un \<or> deviceId u = dev) users = Some i"
  shows "handleUserRegistration hash now fo so users data = users \<or>
         (\<exists>pw. reg_password data = Some pw \<and>
            handleUserRegistration hash now fo so users data =
              users[i := (users ! i)\<lparr>password := hash pw\<rparr>])"
  using assms
  by (cases "reg_password data")
    (simp_all add: handleUserRegistration_def Let_def split: outcome.splits)

lemma registration_twice_one:
  assumes v: "reg_username data = Some un" "reg_password data = Some pw"
    "reg_deviceId data = Some dev" "un \<noteq> []" "pw \<noteq> []" "dev \<noteq> []"
    and le: "length (matching un dev users) \<le> 1"
  shows "length (matching un dev
           (handleUserRegistration h2 n2 Succeeds Succeeds
              (handleUserRegistration h1 n1 Succeeds Succeeds users data) data)) = 1"
proof -
  let ?p = "\<lambda>u. username u = un \<or> deviceId u = dev"
  let ?users1 = "handleUserRegistration h1 n1 Succeeds Succeeds users data"
  have one: "length (matching un dev ?users1) = 1"
  proof (cases "findOne ?p users")
    case None
    then have "matching un dev users = []" by (simp add: findOne_None_filter matching_def)
    then show ?thesis using None by (simp add: registration_valid[OF v] matching_def)
  next
    case (Some i)
    then have "?p (users ! i)" "i < length users" using findOne_Some[OF Some] by auto
    then have "users ! i \<in> set (matching un dev users)" by (auto simp: matching_def)
    then have "length (matching un dev users) = 1" using le
      by (cases "matching un dev users") auto
    then show ?thesis using Some
      by (simp add: registration_valid[OF v] length_matching_password_update)
  qed
  then have "matching un dev ?users1 \<noteq> []" by auto
  then obtain i where i: "findOne ?p ?users1 = Some i"
    by (cases "findOne ?p ?users1") (auto simp: findOne_None_filter matching_def)
  show ?thesis using one i
    by (simp add: registration_valid[OF v, of h2 n2 ?users1] length_matching_password_update)
qed

text \<open>
  Claim C4, as stated: for every store and every registration message, processing the
  message twice leaves exactly one account whose username or deviceId matches it. A store
  may hold one account with the message's username and another with its deviceId; the
  lookup finds the first, no account is created, and both still match: two accounts, not
  one. A message with an empty password is dropped by the required-field check, and a
  message whose save raises both times is dropped as well: no account, not one.
\<close>

theorem registration_twice_two_accounts:
  "length (matching ''mona'' ''GT-002''
     (handleUserRegistration (saltedHash ''s2'') 2 Succeeds Succeeds
        (handleUserRegistration (saltedHash ''s1'') 1 Succeeds Succeeds
           [gardener [], neighbour] crossRegistration) crossRegistration)) = 2 \<and>
   length (matching ''mona'' ''GT-001''
     (handleUserRegistration (saltedHash ''s2'') 2 Succeeds Succeeds
        (handleUserRegistration (saltedHash ''s1'') 1 Succeeds Succeeds
           [neighbour] blankPassword) blankPassword)) = 0 \<and>
   length (matching ''mona'' ''GT-001''
     (handleUserRegistration (saltedHash ''s2'') 2 Succeeds Raises
        (handleUserRegistration (saltedHash ''s1'') 1 Succeeds Raises
           [neighbour] monaRegisters) monaRegisters)) = 0"
  by (simp add: handleUserRegistration_def matching_def gardener_def neighbour_def
      crossRegistration_def blankPassword_def monaRegisters_def)

text \<open>
  Claim C4, amended. For a store that holds at most one account matching the message's
  username or deviceId, and a message whose three fields are present and not empty,
  processing the message twice with the store's calls succeeding leaves exactly one
  matching account. And whatever the store, the message's password and the outcome of the
  store's calls, the handler creates no account when one matching the username or the
  deviceId exists.
\<close>

theorem registration_twice_one_account:
  assumes "reg_username data = Some un" and "reg_deviceId data = Some dev"
  shows "(\<forall>pw. reg_password data = Some pw \<and> un \<noteq> [] \<and> pw \<noteq> [] \<and> dev \<noteq> [] \<and>
              length (matching un dev users) \<le> 1 \<longrightarrow>
           length (matching un dev
             (handleUserRegistration h2 n2 Succeeds Succeeds
                (handleUserRegistration h1 n1 Succeeds Succeeds users data) data)) = 1) \<and>
         (matching un dev users \<noteq> [] \<longrightarrow>
           length (handleUserRegistration hash now fo so users data) = length users)"
proof -
  have "length (handleUserRegistration hash now fo so users data) = length users"
    if "matching un dev users \<noteq> []"
  proof -
    have "findOne (\<lambda>u. username u = un \<or> deviceId u = dev) users \<noteq> None"
      using that by (simp add: findOne_None_filter matching_def)
    then obtain i where "findOne (\<lambda>u. username u = un \<or> deviceId u = dev) users = Some i"
      by auto
    then show ?thesis
      using registration_existing[OF assms, of users i hash now fo so] by auto
  qed
  then show ?thesis using registration_twice_one[OF assms(1) _ assms(2)] by blast
qed

text \<open>
  The amended claim at a store without a match (one account after two deliveries) and at a
  store with one (no account added).
\<close>

theorem registration_twice_one_account_witness:
  "length (matching ''mona'' ''GT-001'' [neighbour]) \<le> 1 \<and>
   length (matching ''mona'' ''GT-001''
     (handleUserRegistration (saltedHash ''s2'') 2 Succeeds Succeeds
        (handleUserRegistration (saltedHash ''s1'') 1 Succeeds Succeeds
           [neighbour] monaRegisters) monaRegisters)) = 1 \<and>
   matching ''mona'' ''GT-001'' [gardener [], neighbour] \<noteq> [] \<and>
   length (handleUserRegistration (saltedHash ''s1'') 1 Succeeds Succeeds
             [gardener [], neighbour] monaRegisters) = length [gardener [], neighbour]"
proof -
  have v: "reg_username monaRegisters = Some ''mona''"
    "reg_deviceId monaRegisters = Some ''GT-001''"
    by (simp_all add: monaRegisters_def)
  have p: "reg_password monaRegisters = Some ''s3cret'' \<and> ''mona'' \<noteq> [] \<and> ''s3cret'' \<noteq> [] \<and>
      ''GT-001'' \<noteq> []"
    by (simp add: monaRegisters_def)
  have a: "length (matching ''mona'' ''GT-001'' [neighbour]) \<le> 1"
    by (simp add: matching_def)
  have b: "matching ''mona'' ''GT-001'' [gardener [], neighbour] \<noteq> []"
    by (simp add: matching_def gardener_def)
  show ?thesis
    using a b p
      registration_twice_one_account[OF v, of "[neighbour]" "saltedHash ''s2''" 2
        "saltedHash ''s1''" 1]
      registration_twice_one_account[OF v, of "[gardener [], neighbour]" _ _ _ _
        "saltedHash ''s1''" 1 Succeeds Succeeds]
    by blast
qed



section \<open>Properties of the status handlers\<close>

text \<open>
  Claim C6. For every relay-status message the handler broadcasts the payload, tagged
  \<open>relay_status\<close>, before it calls the store, and the broadcast stands whether or not the
  upsert fails: a failure adds a log entry after the two and nothing else. No check of the
  message comes before the broadcast.
\<close>

theorem relay_status_broadcast_first:
  "wsClients (handleRelayStatus so now srv data) =
      broadcastToWebSockets (Relay_status data) (wsClients srv) \<and>
   effects (handleRelayStatus so now srv data) =
      effects srv @ [Broadcast (Relay_status data), StoreCall (rs_deviceId data)] @
        (if findOneAndUpdate so now data (statuses srv) = None then [ErrorLogged] else []) \<and>
   findOneAndUpdate Raises now data (statuses srv) = None"
proof -
  have fails: "findOneAndUpdate Raises now data (statuses srv) = None"
    by (simp add: findOneAndUpdate_def)
  have "wsClients (handleRelayStatus so now srv data) =
          broadcastToWebSockets (Relay_status data) (wsClients srv) \<and>
        effects (handleRelayStatus so now srv data) =
          effects srv @ [Broadcast (Relay_status data), StoreCall (rs_deviceId data)] @
            (if findOneAndUpdate so now data (statuses srv) = None then [ErrorLogged] else [])"
    by (cases "findOneAndUpdate so now data (statuses srv)")
      (simp_all add: handleRelayStatus_def broadcast_def logError_def Let_def)
  with fails show ?thesis by simp
qed

text \<open>The theorem at a store that raises: the open client has the message all the same.\<close>

theorem relay_status_broadcast_first_witness:
  "wsClients (handleRelayStatus Raises 300 (idleServer [swappedRecord]) relayOneOn) =
      [\<lparr>readyOpen = True, sent = [Relay_status relayOneOn]\<rparr>] \<and>
   effects (handleRelayStatus Raises 300 (idleServer [swappedRecord]) relayOneOn) =
      [Broadcast (Relay_status relayOneOn), StoreCall ''GT-001'', ErrorLogged]"
  using relay_status_broadcast_first[of Raises 300 "idleServer [swappedRecord]" relayOneOn]
  by (simp add: idleServer_def browser_def broadcastToWebSockets_def relayOneOn_def)

text \<open>
  Claim C7. For every device-status message: when saving the new record fails, the handler
  logs the error and returns with no broadcast and no write to the cache of connected
  devices; when it succeeds, the record is stored, then the cache is written, then the
  message is broadcast tagged \<open>device_status\<close>.
\<close>

theorem device_status_persist_first:
  "(saveDeviceStatus so now data (statuses srv) = None \<longrightarrow>
      handleDeviceStatus so now srv data =
        srv\<lparr>effects := effects srv @ [StoreCall (dev_deviceId data), ErrorLogged]\<rparr>) \<and>
   (\<forall>recs. saveDeviceStatus so now data (statuses srv) = Some recs \<longrightarrow>
      handleDeviceStatus so now srv data =
        srv\<lparr>statuses := recs,
            connectedDevices := mapSet (dev_deviceId data) (data, now) (connectedDevices srv),
            wsClients := broadcastToWebSockets (Device_status data) (wsClients srv),
            effects := effects srv @ [StoreCall (dev_deviceId data), CacheSet (dev_deviceId data),
                                      Broadcast (Device_status data)]\<rparr>) \<and>
   saveDeviceStatus Raises now data (statuses srv) = None"
  by (simp add: handleDeviceStatus_def broadcast_def logError_def Let_def saveDeviceStatus_def)

text \<open>The theorem at a store that raises and at one that accepts the record.\<close>

theorem device_status_persist_first_witness:
  "handleDeviceStatus Raises 300 (idleServer []) snapshot =
     \<lparr>statuses = [], connectedDevices = [], wsClients = [browser],
      effects = [StoreCall ''GT-001'', ErrorLogged]\<rparr> \<and>
   wsClients (handleDeviceStatus Succeeds 300 (idleServer []) snapshot) =
     [\<lparr>readyOpen = True, sent = [Device_status snapshot]\<rparr>] \<and>
   connectedDevices (handleDeviceStatus Succeeds 300 (idleServer []) snapshot) =
     [(''GT-001'', snapshot, 300)] \<and>
   effects (handleDeviceStatus Succeeds 300 (idleServer []) snapshot) =
     [StoreCall ''GT-001'', CacheSet ''GT-001'', Broadcast (Device_status snapshot)]"
proof -
  have n: "saveDeviceStatus Raises 300 snapshot (statuses (idleServer [])) = None"
    by (simp add: saveDeviceStatus_def)
  obtain recs where
    s: "saveDeviceStatus Succeeds 300 snapshot (statuses (idleServer [])) = Some recs"
    by (simp add: saveDeviceStatus_def snapshot_def)
  show ?thesis
    using device_status_persist_first[of Raises 300 snapshot "idleServer []"] n
      device_status_persist_first[of Succeeds 300 snapshot "idleServer []"] s
    by (simp add: idleServer_def browser_def broadcastToWebSockets_def snapshot_def)
qed

text \<open>
  Claim C8. The upsert of a relay-status message should change the most recent record of
  the device. Two device-status messages, at times 100 and 200, leave two records of the
  device; a relay-status message at time 300 then changes the record of time 100, the
  first in the collection, and leaves the record of time 200 as it was.
\<close>

theorem relay_status_updates_oldest_record:
  "statuses (handleRelayStatus Succeeds 300
      (handleDeviceStatus Succeeds 200
         (handleDeviceStatus Succeeds 100 (idleServer []) snapshot) snapshot) relayZeroOn) =
     [\<lparr>ds_deviceId = ''GT-001'', ds_ip = Some ''10.0.0.7'', ds_rssi = Some (-60),
       ds_uptime = Some 50,
       ds_relays = RelayArray [Some (pumpObs\<lparr>obs_state := Some True, obs_timer := Some 30\<rparr>)],
       ds_timestamp = 300\<rparr>,
      \<lparr>ds_deviceId = ''GT-001'', ds_ip = Some ''10.0.0.7'', ds_rssi = Some (-60),
       ds_uptime = Some 50, ds_relays = RelayArray [Some pumpObs], ds_timestamp = 200\<rparr>]"
  by (simp add: handleRelayStatus_def handleDeviceStatus_def saveDeviceStatus_def
      findOneAndUpdate_def broadcast_def logError_def idleServer_def snapshot_def
      relayZeroOn_def setStateTimer_def Let_def)

text \<open>
  The part of claim C8 that the code keeps: a record is created exactly when the device has
  none, and otherwise the number of records stays.
\<close>

lemma findOneAndUpdate_creates_iff:
  assumes "findOneAndUpdate Succeeds now data recs = Some recs'"
  shows "length recs' = (if \<exists>d\<in>set recs. ds_deviceId d = rs_deviceId data
                          then length recs else length recs + 1)"
proof (cases "findOne (\<lambda>d. ds_deviceId d = rs_deviceId data) recs")
  case None
  have "\<not> (\<exists>d\<in>set recs. ds_deviceId d = rs_deviceId data)"
    using None by (simp add: findOne_None)
  moreover have "length recs' = length recs + 1"
    using assms None by (auto simp: findOneAndUpdate_def)
  ultimately show ?thesis by simp
next
  case (Some i)
  have "\<exists>d\<in>set recs. ds_deviceId d = rs_deviceId data"
    using findOne_Some[OF Some] nth_mem by blast
  moreover have "length recs' = length recs"
    using assms Some by (auto simp: findOneAndUpdate_def split: option.splits)
  ultimately show ?thesis by simp
qed

section \<open>Properties of the relay configuration route\<close>

lemma dashboard_relays_update: "d\<lparr>relays := rs\<rparr> = \<lparr>relays = rs\<rparr>"
  by (cases d) simp



text \<open>
  A write whose index is a string never finds an entry: it adds one with the cast index,
  whatever the dashboard holds, or cannot be saved.
\<close>

lemma upsertRelay_string:
  assumes "w_index body = IndexString s"
  shows "upsertRelay cast now body d =
     (case cast s of
        None \<Rightarrow> None
      | Some n \<Rightarrow> Some \<lparr>relays = relays d @
                 [\<lparr>index = n, relay_name = w_name body, relay_image = w_image body,
                   schedules = [],
                   relay_enabled = Some (case w_enabled body of None \<Rightarrow> True | Some b \<Rightarrow> b),
                   relay_createdAt = now\<rparr>]\<rparr>)"
proof -
  have "findOne (\<lambda>r. strictEquals (index r) (w_index body)) (relays d) = None"
    using assms by (simp add: findOne_None)
  then show ?thesis
    using assms by (simp add: upsertRelay_def dashboard_relays_update split: option.splits)
qed









end
